theory Spec2Isabelle
  imports Complex_Main "HOL-Library.Sublist"
begin

section \<open>Python string operations used by the pipeline\<close>

text \<open>
  Python strings are modelled as \<^typ>\<open>string\<close>, a list of characters with code points
  0 to 255. \<open>str.strip()\<close>, \<open>str.split()\<close> and \<open>str.isspace()\<close> share one notion of
  whitespace; in that range it is the code points 9 to 13, 28 to 32, 133 and 160.
\<close>

definition is_space :: "char \<Rightarrow> bool" where
  "is_space c \<longleftrightarrow> (of_char c :: nat) \<in> {9, 10, 11, 12, 13, 28, 29, 30, 31, 32, 133, 160}"

text \<open>\<open>s.strip()\<close>: leading and trailing whitespace removed.\<close>

definition str_strip :: "string \<Rightarrow> string" where
  "str_strip s = rev (dropWhile is_space (rev (dropWhile is_space s)))"

text \<open>\<open>s.lstrip(chars)\<close>: leading characters that occur in \<open>chars\<close> removed.\<close>

definition str_lstrip :: "string \<Rightarrow> string \<Rightarrow> string" where
  "str_lstrip chars s = dropWhile (\<lambda>c. c \<in> set chars) s"

text \<open>
  \<open>s.split()\<close> with no argument: the maximal runs of non-whitespace characters, in order;
  no empty strings.
\<close>

function str_split_ws :: "string \<Rightarrow> string list" where
  "str_split_ws s =
     (case dropWhile is_space s of
        [] \<Rightarrow> []
      | c # cs \<Rightarrow> takeWhile (\<lambda>x. \<not> is_space x) (c # cs)
                 # str_split_ws (dropWhile (\<lambda>x. \<not> is_space x) (c # cs)))"
  by pat_completeness auto
termination
proof (relation "measure length")
  show "wf (measure length)" by simp
next
  fix s :: string and c cs
  assume eq: "dropWhile is_space s = c # cs"
  have "\<not> is_space c"
    using hd_dropWhile [of is_space s] eq by simp
  then have "dropWhile (\<lambda>x. \<not> is_space x) (c # cs) = dropWhile (\<lambda>x. \<not> is_space x) cs"
    by simp
  moreover have "length (dropWhile (\<lambda>x. \<not> is_space x) cs) \<le> length cs"
    by (rule length_dropWhile_le)
  moreover have "length (c # cs) \<le> length s"
    using length_dropWhile_le [of is_space s] eq by simp
  ultimately show "(dropWhile (\<lambda>x. \<not> is_space x) (c # cs), s) \<in> measure length"
    by simp
qed

declare str_split_ws.simps [simp del]

text \<open>\<open>sep.join(xs)\<close>.\<close>

fun str_join :: "string \<Rightarrow> string list \<Rightarrow> string" where
  "str_join sep [] = []"
| "str_join sep [x] = x"
| "str_join sep (x # y # ys) = x @ sep @ str_join sep (y # ys)"

text \<open>
  \<open>s.split(sep)\<close> for a separator \<open>d # ds\<close> (Python raises \<open>ValueError\<close> on the empty
  separator; the pipeline only splits on non-empty constants): the pieces between the
  non-overlapping occurrences of the separator, scanning from the left.
\<close>

fun str_split :: "char \<Rightarrow> string \<Rightarrow> string \<Rightarrow> string list" where
  "str_split d ds [] = [[]]"
| "str_split d ds (c # cs) =
     (if prefix (d # ds) (c # cs)
      then [] # str_split d ds (drop (length ds) cs)
      else (case str_split d ds cs of
              [] \<Rightarrow> [[c]]
            | p # ps \<Rightarrow> (c # p) # ps))"

text \<open>\<open>sub in s\<close>: \<open>sub\<close> occurs in \<open>s\<close> as a contiguous substring.\<close>

fun str_contains :: "string \<Rightarrow> string \<Rightarrow> bool" where
  "str_contains sub [] \<longleftrightarrow> sub = []"
| "str_contains sub (c # cs) \<longleftrightarrow> prefix sub (c # cs) \<or> str_contains sub cs"

text \<open>\<open>str(n)\<close> for a non-negative integer: its decimal digits.\<close>

definition digit_char :: "nat \<Rightarrow> char" where
  "digit_char d = ''0123456789'' ! d"

function str_of_nat :: "nat \<Rightarrow> string" where
  "str_of_nat n = (if n < 10 then [digit_char n] else str_of_nat (n div 10) @ [digit_char (n mod 10)])"
  by pat_completeness auto
termination
  by (relation "measure id") auto

declare str_of_nat.simps [simp del]


section \<open>Ingestion: configuration and data model (ingestion.py)\<close>

text \<open>
  The module-level constants of \<open>ingestion.py\<close> form the configuration. The embedding
  model and the Qdrant host and port only reach the external clients and are left out.
\<close>

record config =
  COLLECTION_NAME :: string
  BATCH_SIZE :: nat
  MAX_CHUNK_WORDS :: int
  MIN_CHUNK_WORDS :: int
  ADD_CONTEXT_PREFIX :: bool

definition default_config :: config where
  "default_config =
     \<lparr>COLLECTION_NAME = ''my_rag_documents_v2'', BATCH_SIZE = 128,
      MAX_CHUNK_WORDS = 500, MIN_CHUNK_WORDS = 5, ADD_CONTEXT_PREFIX = False\<rparr>"

text \<open>
  The two hash functions of the Python standard library are parameters of the model:
  \<open>uuid.uuid5(namespace, name)\<close> and \<open>hashlib.md5(s.encode()).hexdigest()\<close>. A UUID is
  modelled by its 128-bit integer value (the attribute \<open>UUID.int\<close>).
\<close>

type_synonym uuid = int

record pylib =
  uuid5 :: "uuid \<Rightarrow> string \<Rightarrow> uuid"
  md5_hexdigest :: "string \<Rightarrow> string"

definition NAMESPACE_DNS :: uuid where
  "NAMESPACE_DNS = 0x6ba7b8109dad11d180b400c04fd430c8"

text \<open>\<open>str(u)\<close> for a UUID: the 32 lower-case hexadecimal digits of its integer value,
  grouped 8-4-4-4-12.\<close>

definition hex_char :: "nat \<Rightarrow> char" where
  "hex_char d = ''0123456789abcdef'' ! d"

definition uuid_hex :: "uuid \<Rightarrow> string" where
  "uuid_hex u = map (\<lambda>i. hex_char (nat ((u div 16 ^ i) mod 16))) (rev [0..<32])"

definition uuid_str :: "uuid \<Rightarrow> string" where
  "uuid_str u =
     (let h = uuid_hex u
      in take 8 h @ ''-'' @ take 4 (drop 8 h) @ ''-'' @ take 4 (drop 12 h) @ ''-''
         @ take 4 (drop 16 h) @ ''-'' @ drop 20 h)"

text \<open>The pipeline object \<open>self\<close>, as far as the modelled methods read it.\<close>

record pipeline =
  debug_mode :: bool

text \<open>
  The items that \<open>doc.iterate_items()\<close> yields. \<open>SectionHeaderItem\<close> and \<open>ListItem\<close> are
  subclasses of \<open>TextItem\<close> in docling; \<open>OtherItem\<close> stands for every item that is no
  \<open>TextItem\<close> (tables, pictures, groups). The nesting level of an item is not used by the
  code.
\<close>

datatype item_class = SectionHeaderItem | TextItem | ListItem | OtherItem

record element =
  item_class :: item_class
  el_text :: string
  page_ref :: "nat option"

record metadata =
  source :: string
  page :: "nat option"
  heading :: string
  chunk_index :: nat

record chunk =
  chunk_id :: string
  chunk_text :: string
  chunk_metadata :: metadata

section \<open>Chunk identity and chunking\<close>

definition generate_deterministic_id :: "pylib \<Rightarrow> pipeline \<Rightarrow> string \<Rightarrow> nat \<Rightarrow> string \<Rightarrow> string" where
  "generate_deterministic_id lib self src idx text_hash =
     (let namespace = uuid5 lib NAMESPACE_DNS src;
          unique_string = str_of_nat idx @ ''::'' @ text_hash
      in uuid_str (uuid5 lib namespace unique_string))"

text \<open>The \<open>for word in words\<close> loop of \<open>_split_large_chunk\<close>, on the pair
  \<open>(chunks, current_chunk)\<close>.\<close>

fun split_loop :: "int \<Rightarrow> string list \<Rightarrow> string list \<times> string list \<Rightarrow> string list \<times> string list" where
  "split_loop max_words [] (chunks, current_chunk) = (chunks, current_chunk)"
| "split_loop max_words (word # words) (chunks, current_chunk) =
     (let current_chunk = current_chunk @ [word]
      in if int (length current_chunk) \<ge> max_words
         then split_loop max_words words (chunks @ [str_join '' '' current_chunk], [])
         else split_loop max_words words (chunks, current_chunk))"

definition split_large_chunk :: "pipeline \<Rightarrow> string \<Rightarrow> int \<Rightarrow> string list" where
  "split_large_chunk self txt max_words =
     (let words = str_split_ws txt
      in if int (length words) \<le> max_words then [txt]
         else (case split_loop max_words words ([], []) of
                 (chunks, current_chunk) \<Rightarrow>
                   if current_chunk \<noteq> [] then chunks @ [str_join '' '' current_chunk]
                   else chunks))"

text \<open>The inner loop \<open>for sub_text in text_chunks\<close> of
  \<open>create_semantic_chunks_from_docs\<close>, on \<open>(chunks_with_metadata, chunk_index)\<close>.\<close>

fun sub_chunk_loop ::
  "config \<Rightarrow> pylib \<Rightarrow> pipeline \<Rightarrow> string \<Rightarrow> string \<Rightarrow> element \<Rightarrow> string list
     \<Rightarrow> chunk list \<times> nat \<Rightarrow> chunk list \<times> nat" where
  "sub_chunk_loop cfg lib self source_filepath current_heading el [] st = st"
| "sub_chunk_loop cfg lib self source_filepath current_heading el (sub_text # text_chunks)
       (chunks_with_metadata, idx) =
     (let contextual_text =
            (if ADD_CONTEXT_PREFIX cfg
             then ''Source: '' @ source_filepath @ ''\<newline>Section: '' @ current_heading
                  @ ''\<newline>\<newline>'' @ sub_text
             else sub_text);
          text_hash = take 16 (md5_hexdigest lib sub_text);
          cid = generate_deterministic_id lib self source_filepath idx text_hash;
          chunk_data =
            \<lparr>chunk_id = cid, chunk_text = contextual_text,
             chunk_metadata =
               \<lparr>source = source_filepath, page = page_ref el,
                heading = current_heading, chunk_index = idx\<rparr>\<rparr>
      in sub_chunk_loop cfg lib self source_filepath current_heading el text_chunks
           (chunks_with_metadata @ [chunk_data], idx + 1))"

text \<open>The outer loop over the items, on
  \<open>(chunks_with_metadata, current_heading, chunk_index)\<close>.\<close>

fun element_loop ::
  "config \<Rightarrow> pylib \<Rightarrow> pipeline \<Rightarrow> string \<Rightarrow> element list
     \<Rightarrow> chunk list \<times> string \<times> nat \<Rightarrow> chunk list \<times> string \<times> nat" where
  "element_loop cfg lib self source_filepath [] st = st"
| "element_loop cfg lib self source_filepath (el # doc) (chunks_with_metadata, current_heading, idx) =
     (if item_class el = SectionHeaderItem
      then element_loop cfg lib self source_filepath doc
             (chunks_with_metadata, str_strip (el_text el), idx)
      else if item_class el \<noteq> TextItem \<and> item_class el \<noteq> ListItem
      then element_loop cfg lib self source_filepath doc (chunks_with_metadata, current_heading, idx)
      else
        (let txt = str_strip (el_text el);
             word_count = length (str_split_ws txt)
         in if txt = [] \<or> int word_count < MIN_CHUNK_WORDS cfg
            then element_loop cfg lib self source_filepath doc
                   (chunks_with_metadata, current_heading, idx)
            else
              (let text_chunks = split_large_chunk self txt (MAX_CHUNK_WORDS cfg)
               in case sub_chunk_loop cfg lib self source_filepath current_heading el text_chunks
                         (chunks_with_metadata, idx) of
                    (chunks', idx') \<Rightarrow>
                      element_loop cfg lib self source_filepath doc (chunks', current_heading, idx'))))"

definition create_semantic_chunks_from_docs ::
  "config \<Rightarrow> pylib \<Rightarrow> pipeline \<Rightarrow> element list \<Rightarrow> string \<Rightarrow> chunk list" where
  "create_semantic_chunks_from_docs cfg lib self doc source_filepath =
     fst (element_loop cfg lib self source_filepath doc ([], ''Introduction'', 0))"

section \<open>Exceptions, JSON values and the external services\<close>

text \<open>
  A raised exception is a value: its class name and its message \<open>str(e)\<close>. A function
  that can raise returns \<open>exn + 'a\<close>, with \<open>Inl\<close> for the exception.
\<close>

datatype exn = Exn (exn_class: string) (exn_msg: string)

text \<open>
  The Python values that \<open>json.loads\<close> returns. A \<open>dict\<close> is an association list, read
  with \<open>map_of\<close>.
\<close>

datatype json =
    JNull
  | JBool bool
  | JInt int
  | JFloat real
  | JStr string
  | JArr "json list"
  | JObj "(string \<times> json) list"

text \<open>The single quote that Python puts around names in its messages.\<close>

definition squote :: string where
  "squote = [CHR 0x27]"

fun type_name :: "json \<Rightarrow> string" where
  "type_name JNull = ''NoneType''"
| "type_name (JBool b) = ''bool''"
| "type_name (JInt i) = ''int''"
| "type_name (JFloat x) = ''float''"
| "type_name (JStr s) = ''str''"
| "type_name (JArr xs) = ''list''"
| "type_name (JObj kvs) = ''dict''"

text \<open>\<open>v.get(key, default)\<close>: defined on a \<open>dict\<close> only; on every other value the
  attribute lookup raises \<open>AttributeError\<close>.\<close>

fun dict_get :: "json \<Rightarrow> string \<Rightarrow> json \<Rightarrow> exn + json" where
  "dict_get (JObj kvs) key dflt = Inr (case map_of kvs key of None \<Rightarrow> dflt | Some v \<Rightarrow> v)"
| "dict_get v key dflt =
     Inl (Exn ''AttributeError''
            (squote @ type_name v @ squote @ '' object has no attribute '' @ squote @ ''get'' @ squote))"

text \<open>\<open>d[key]\<close> on a payload dictionary: \<open>KeyError\<close> when the key is absent.\<close>

definition key_error :: "string \<Rightarrow> exn" where
  "key_error key = Exn ''KeyError'' (squote @ key @ squote)"

text \<open>
  A point as Qdrant returns it from \<open>search\<close> and \<open>scroll\<close>. Of the payload the code
  reads the fields \<open>source\<close> and \<open>text\<close>, as strings.
\<close>

record point_record =
  rec_id :: string
  rec_payload :: "string \<rightharpoonup> string"

text \<open>A point as the ingestion builds it (\<open>PointStruct\<close>): the payload is the chunk's
  metadata together with its text.\<close>

record payload = metadata +
  payload_text :: string

record point_struct =
  ps_id :: string
  ps_vector :: "real list"
  ps_payload :: payload

text \<open>\<open>models.Filter(must=[models.FieldCondition(key=k, match=models.MatchValue(value=v))])\<close>.\<close>

datatype field_condition = FieldCondition (cond_key: string) (match_value: string)

datatype filter = Filter (must: "field_condition list")

text \<open>Qdrant's reading of such a filter: a point matches when its payload has the given
  value at every listed key.\<close>

definition filter_matches :: "filter \<Rightarrow> (string \<rightharpoonup> string) \<Rightarrow> bool" where
  "filter_matches f pl \<longleftrightarrow> list_all (\<lambda>c. pl (cond_key c) = Some (match_value c)) (must f)"

record collection_info =
  vectors_size :: nat
  points_count :: nat

text \<open>
  The calls that the code issues to its collaborators: the generative-model service
  (model, prompt, response MIME type if configured), the embedding model, the Qdrant
  client, the document converter and the file system.
\<close>

datatype call =
    GenerateContent string string "string option"
  | EncodeQuery json
  | EncodeTexts "string list" nat
  | GetCollection string
  | Search string "real list" nat
  | Scroll string filter nat
  | Delete string filter
  | Upsert string "point_struct list" bool
  | PathExists string
  | Convert string
  | WriteFile string

text \<open>The calls that change the vector store.\<close>

fun mutates_store :: "call \<Rightarrow> bool" where
  "mutates_store (Upsert c ps w) = True"
| "mutates_store (Delete c f) = True"
| "mutates_store other = False"

text \<open>
  The environment of a run: what each collaborator answers to a request, and the two
  library functions \<open>str.format\<close> (with keyword arguments) and \<open>json.loads\<close>. A
  collaborator either returns or raises. Within one run of a modelled method no
  collaborator receives the same request twice, so that one answer per request describes
  the run. \<open>generate_content\<close> gives \<open>response.text\<close>, which is \<open>None\<close> for a response
  without text; \<open>json_loads\<close> is applied to that value. \<open>str_format\<close> is
  \<open>template.format\<close> with keyword arguments: it raises \<open>KeyError\<close>, \<open>IndexError\<close> or \<open>ValueError\<close> on
  a template with another replacement field or an unmatched brace. The prompt template
  files are read at construction and are not among the sources.
\<close>

record env =
  str_format :: "string \<Rightarrow> (string \<times> string) list \<Rightarrow> exn + string"
  json_loads :: "string option \<Rightarrow> exn + json"
  generate_content :: "string \<Rightarrow> string \<Rightarrow> string option \<Rightarrow> exn + string option"
  encode_query :: "json \<Rightarrow> exn + real list"
  encode_texts :: "string list \<Rightarrow> nat \<Rightarrow> exn + real list list"
  get_collection :: "string \<Rightarrow> exn + collection_info"
  qd_search :: "string \<Rightarrow> real list \<Rightarrow> nat \<Rightarrow> exn + point_record list"
  qd_scroll :: "string \<Rightarrow> filter \<Rightarrow> nat \<Rightarrow> exn + point_record list \<times> string option"
  qd_delete :: "string \<Rightarrow> filter \<Rightarrow> exn + unit"
  qd_upsert :: "string \<Rightarrow> point_struct list \<Rightarrow> bool \<Rightarrow> exn + unit"
  path_exists :: "string \<Rightarrow> bool"
  convert :: "string \<Rightarrow> exn + element list"
  write_doc :: "string \<Rightarrow> element list \<Rightarrow> exn + unit"

text \<open>
  A method that talks to collaborators returns its result, or the exception it raises,
  together with the calls it issued, in order. The combinators below are the sequencing
  of statements, a call to a collaborator, \<open>return\<close>, \<open>raise\<close> and
  \<open>try: ... except Exception as e: ...\<close>.
\<close>

type_synonym 'a run = "(exn + 'a) \<times> call list"

definition py_return :: "'a \<Rightarrow> 'a run" where
  "py_return x = (Inr x, [])"

definition py_raise :: "exn \<Rightarrow> 'a run" where
  "py_raise e = (Inl e, [])"

definition py_lift :: "exn + 'a \<Rightarrow> 'a run" where
  "py_lift r = (r, [])"

definition py_call :: "call \<Rightarrow> exn + 'a \<Rightarrow> 'a run" where
  "py_call c r = (r, [c])"

definition py_bind :: "'a run \<Rightarrow> ('a \<Rightarrow> 'b run) \<Rightarrow> 'b run" where
  "py_bind m f =
     (case m of
        (Inl e, cs) \<Rightarrow> (Inl e, cs)
      | (Inr x, cs) \<Rightarrow> (case f x of (r, cs') \<Rightarrow> (r, cs @ cs')))"

definition py_try :: "'a run \<Rightarrow> (exn \<Rightarrow> 'a run) \<Rightarrow> 'a run" where
  "py_try body handler =
     (case body of
        (Inl e, cs) \<Rightarrow> (case handler e of (r, cs') \<Rightarrow> (r, cs @ cs'))
      | (Inr x, cs) \<Rightarrow> (Inr x, cs))"

section \<open>Ingestion: deleting and processing a document (ingestion.py)\<close>

text \<open>\<open>delete_document\<close> returns \<open>None\<close>; the outcome value stands for the message it
  prints. It has no handler.\<close>

datatype delete_outcome = NoPointsFound | PointsDeleted

definition source_filter :: "string \<Rightarrow> filter" where
  "source_filter source_filepath = Filter [FieldCondition ''source'' source_filepath]"

definition delete_document :: "config \<Rightarrow> env \<Rightarrow> pipeline \<Rightarrow> string \<Rightarrow> delete_outcome run" where
  "delete_document cfg env self source_filepath =
     py_bind (py_call (Scroll (COLLECTION_NAME cfg) (source_filter source_filepath) 1)
                (qd_scroll env (COLLECTION_NAME cfg) (source_filter source_filepath) 1))
       (\<lambda>scroll_result.
          if fst scroll_result = [] then py_return NoPointsFound
          else
            py_bind (py_call (Delete (COLLECTION_NAME cfg) (source_filter source_filepath))
                       (qd_delete env (COLLECTION_NAME cfg) (source_filter source_filepath)))
              (\<lambda>u. py_return PointsDeleted))"

text \<open>\<open>os.path.basename\<close>: what follows the last slash.\<close>

definition basename :: "string \<Rightarrow> string" where
  "basename p = rev (takeWhile (\<lambda>c. c \<noteq> CHR ''/'') (rev p))"

text \<open>\<open>_save_raw_doc_to_file\<close>: writes only in debug mode.\<close>

definition save_raw_doc_to_file :: "env \<Rightarrow> pipeline \<Rightarrow> element list \<Rightarrow> string \<Rightarrow> unit run" where
  "save_raw_doc_to_file env self doc output_filepath =
     (if \<not> debug_mode self then py_return ()
      else py_call (WriteFile output_filepath) (write_doc env output_filepath doc))"

text \<open>Step 4 of \<open>process_document\<close>, the loop over \<open>enumerate(chunks)\<close>;
  \<open>embeddings[i]\<close> raises \<open>IndexError\<close> when there are fewer embeddings than chunks.\<close>

fun prepare_points :: "real list list \<Rightarrow> nat \<Rightarrow> chunk list \<Rightarrow> point_struct list \<Rightarrow> exn + point_struct list" where
  "prepare_points embeddings i [] points = Inr points"
| "prepare_points embeddings i (c # chunks) points =
     (if i < length embeddings
      then prepare_points embeddings (i + 1) chunks
             (points @ [\<lparr>ps_id = chunk_id c, ps_vector = embeddings ! i,
                         ps_payload = metadata.extend (chunk_metadata c)
                                        (payload.fields (chunk_text c))\<rparr>])
      else Inl (Exn ''IndexError'' ''index out of bounds''))"

text \<open>
  \<open>process_document\<close> returns \<open>None\<close> whenever it does not raise; the outcome value
  stands for the report it prints (for a processed document, the number of chunks and
  the number of points in the collection). Its \<open>except\<close> clause prints and re-raises.
\<close>

datatype process_outcome = FileNotFound | NoChunksExtracted | Processed nat nat

definition process_document ::
  "config \<Rightarrow> pylib \<Rightarrow> env \<Rightarrow> pipeline \<Rightarrow> string \<Rightarrow> process_outcome run" where
  "process_document cfg lib env self filepath =
     py_bind (py_call (PathExists filepath) (Inr (path_exists env filepath)))
       (\<lambda>exists.
          if \<not> exists then py_return FileNotFound
          else
            (let filename = basename filepath
             in py_try
                  (py_bind (py_call (Convert filepath) (convert env filepath))
                     (\<lambda>doc.
                  py_bind (save_raw_doc_to_file env self doc ''doc_structure.txt'')
                     (\<lambda>u.
                  let chunks = create_semantic_chunks_from_docs cfg lib self doc filename
                  in if chunks = [] then py_return NoChunksExtracted
                     else
                       (let texts_to_embed = map chunk_text chunks
                        in py_bind (py_call (EncodeTexts texts_to_embed (BATCH_SIZE cfg))
                                      (encode_texts env texts_to_embed (BATCH_SIZE cfg)))
                             (\<lambda>embeddings.
                           py_bind (py_lift (prepare_points embeddings 0 chunks []))
                             (\<lambda>points.
                           py_bind (py_call (Upsert (COLLECTION_NAME cfg) points True)
                                      (qd_upsert env (COLLECTION_NAME cfg) points True))
                             (\<lambda>u.
                           py_bind (py_call (GetCollection (COLLECTION_NAME cfg))
                                      (get_collection env (COLLECTION_NAME cfg)))
                             (\<lambda>collection_info.
                           py_return (Processed (length chunks)
                                        (points_count collection_info))))))))))
                  (\<lambda>e. py_raise e)))"

section \<open>The query path (rag_service.py)\<close>

text \<open>The fields of the service object that the query path reads. \<open>__init__\<close> sets the
  collection name and the model; the two templates are read from files.\<close>

record rag_service =
  collection_name :: string
  generative_model :: string
  query_rewrite_template :: string
  answer_synthesis_template :: string

definition rewrite_suffix :: string where
  "rewrite_suffix =
     ''\<newline>\<newline>Output your final rewritten query in a JSON object like this: ''
     @ ''{\"rewritten_query\": \"your rewritten query here\"}''"

text \<open>The first statement of \<open>rewrite_query\<close>, before the \<open>try\<close> block: the formatted
  template followed by the output instruction.\<close>

definition rewrite_prompt :: "env \<Rightarrow> rag_service \<Rightarrow> string \<Rightarrow> exn + string" where
  "rewrite_prompt env self query =
     (case str_format env (query_rewrite_template self) [(''query'', query)] of
        Inl e \<Rightarrow> Inl e
      | Inr formatted \<Rightarrow> Inr (formatted @ rewrite_suffix))"

text \<open>
  \<open>rewrite_query\<close>. What the \<open>try\<close> block returns is the value stored under
  \<open>rewritten_query\<close>, whatever its JSON type; the handler returns the original query.
  An exception of the formatting is outside the \<open>try\<close> block and reaches the caller.
\<close>

definition rewrite_query :: "env \<Rightarrow> rag_service \<Rightarrow> string \<Rightarrow> json run" where
  "rewrite_query env self query =
     py_bind (py_lift (rewrite_prompt env self query))
       (\<lambda>prompt.
          py_try
            (py_bind (py_call (GenerateContent ''models/gemini-flash-lite-latest'' prompt
                                 (Some ''application/json''))
                        (generate_content env ''models/gemini-flash-lite-latest'' prompt
                           (Some ''application/json'')))
               (\<lambda>response_text.
             py_bind (py_lift (json_loads env response_text))
               (\<lambda>rewritten_query_json.
             py_bind (py_lift (dict_get rewritten_query_json ''rewritten_query'' (JStr query)))
               (\<lambda>rewritten. py_return rewritten))))
            (\<lambda>e. py_return (JStr query)))"

record retrieval_results =
  rr_context :: string
  rr_sources :: "string set"

text \<open>The loop over the search results, on \<open>(context, retrieved_sources)\<close>. The order in
  which \<open>list(retrieved_sources)\<close> lists a set is not specified; the sources stay a set.\<close>

fun context_loop :: "point_record list \<Rightarrow> string \<times> string set \<Rightarrow> exn + string \<times> string set" where
  "context_loop [] st = Inr st"
| "context_loop (result # search_results) (ctx, retrieved_sources) =
     (case rec_payload result ''source'' of
        None \<Rightarrow> Inl (key_error ''source'')
      | Some source_file \<Rightarrow>
          (case rec_payload result ''text'' of
             None \<Rightarrow> Inl (key_error ''text'')
           | Some t \<Rightarrow>
               context_loop search_results
                 (ctx @ ''[Source: '' @ source_file @ '']\<newline>'' @ t @ ''\<newline>---\<newline>'',
                  insert source_file retrieved_sources)))"

text \<open>\<open>retrieve_context\<close> has no handler: what a collaborator or a payload access
  raises reaches the caller.\<close>

definition retrieve_context :: "env \<Rightarrow> rag_service \<Rightarrow> json \<Rightarrow> nat \<Rightarrow> retrieval_results run" where
  "retrieve_context env self query top_k =
     py_bind (py_call (EncodeQuery query) (encode_query env query))
       (\<lambda>query_vector.
     py_bind (py_call (GetCollection (collection_name self)) (get_collection env (collection_name self)))
       (\<lambda>collection_info.
     py_bind (py_call (Search (collection_name self) query_vector top_k)
                (qd_search env (collection_name self) query_vector top_k))
       (\<lambda>search_results.
     py_bind (py_lift (context_loop search_results ([], {})))
       (\<lambda>st. py_return \<lparr>rr_context = fst st, rr_sources = snd st\<rparr>))))"

record generation_results =
  answer :: string
  cited_docs :: "string list"

definition no_information_answer :: string where
  "no_information_answer =
     ''I could not find any relevant information in the provided documents to answer your question.''"

text \<open>
  The body of the \<open>try\<close> block of \<open>generate_answer\<close> after the call, on
  \<open>response.text\<close>. A response without text makes the \<open>in\<close> test raise \<open>TypeError\<close>;
  \<open>parts[1]\<close> raises \<open>IndexError\<close> on a list of length one.
\<close>

definition parse_response :: "string option \<Rightarrow> exn + generation_results" where
  "parse_response response_text =
     (case response_text of
        None \<Rightarrow> Inl (Exn ''TypeError'' (''argument of type '' @ squote @ ''NoneType'' @ squote
                                          @ '' is not iterable''))
      | Some full_text \<Rightarrow>
          if str_contains ''\<newline>Citations:'' full_text
          then
            (case str_split (CHR 0x0A) ''Citations:'' full_text of
               p0 # p1 # ps \<Rightarrow>
                 (let answer_text = str_strip p0;
                      citations_text = str_strip p1;
                      docs = map (\<lambda>line. str_strip (str_lstrip ''- '' (str_strip line)))
                               (filter (\<lambda>line. str_strip line \<noteq> [])
                                  (str_split (CHR 0x0A) [] citations_text))
                  in Inr \<lparr>answer = answer_text, cited_docs = docs\<rparr>)
             | ps \<Rightarrow> Inl (Exn ''IndexError'' ''list index out of range''))
          else Inr \<lparr>answer = str_strip full_text, cited_docs = []\<rparr>)"

text \<open>
  \<open>generate_answer\<close>. The prompt is formatted first, before the test for an empty
  context and outside the \<open>try\<close> block: an exception of the formatting reaches the
  caller. Every exception of the \<open>try\<close> block becomes an answer text.
\<close>

definition synthesis_prompt :: "env \<Rightarrow> rag_service \<Rightarrow> string \<Rightarrow> string \<Rightarrow> exn + string" where
  "synthesis_prompt env self query ctx =
     str_format env (answer_synthesis_template self) [(''context'', ctx), (''query'', query)]"

definition generate_answer :: "env \<Rightarrow> rag_service \<Rightarrow> string \<Rightarrow> string \<Rightarrow> generation_results run" where
  "generate_answer env self query ctx =
     py_bind (py_lift (synthesis_prompt env self query ctx))
       (\<lambda>prompt.
          if ctx = [] then py_return \<lparr>answer = no_information_answer, cited_docs = []\<rparr>
          else
            py_try
              (py_bind (py_call (GenerateContent (generative_model self) prompt None)
                          (generate_content env (generative_model self) prompt None))
                 (\<lambda>response_text. py_lift (parse_response response_text)))
              (\<lambda>e. py_return
                      \<lparr>answer = ''An error occurred while generating the answer: '' @ exn_msg e,
                       cited_docs = []\<rparr>))"

record ask_result =
  original_query :: string
  rewritten_query :: json
  res_context :: string
  res_answer :: string
  res_cited_docs :: "string list"
  referenced_docs :: "string set"

definition ask :: "env \<Rightarrow> rag_service \<Rightarrow> string \<Rightarrow> ask_result run" where
  "ask env self query =
     py_bind (rewrite_query env self query)
       (\<lambda>rewritten.
     py_bind (retrieve_context env self rewritten 7)
       (\<lambda>retrieval.
     py_bind (generate_answer env self query (rr_context retrieval))
       (\<lambda>generation.
     py_return \<lparr>original_query = query,
                rewritten_query = rewritten,
                res_context = rr_context retrieval,
                res_answer = answer generation,
                res_cited_docs = cited_docs generation,
                referenced_docs = rr_sources retrieval\<rparr>)))"

section \<open>The judge (llm_judge.py)\<close>

record llm_judge =
  judge_model :: string

definition create_judge_prompt :: "llm_judge \<Rightarrow> string \<Rightarrow> string \<Rightarrow> string \<Rightarrow> string \<Rightarrow> string" where
  "create_judge_prompt self original rewritten ctx answer_text =
      ''\<newline>''
      @ ''        You are a meticulous AI evaluator for a multi-step RAG (Retrieval-Augmented Generation) pipeline. Your task is to assess two distinct stages and output your findings in a single, valid JSON object that strictly adheres to the provided schema.\<newline>''
      @ ''    \<newline>''
      @ ''        **---------------- PART 1: EVALUATE THE QUERY REWRITE ----------------**\<newline>''
      @ ''    \<newline>''
      @ ''        **Instructions:**\<newline>''
      @ ''        Analyze the `[ORIGINAL QUERY]` and the `[REWRITTEN QUERY]`. The goal of the rewrite is to improve the query for a vector database search by adding context, keywords, and synonyms without losing the original intent.\<newline>''
      @ ''    \<newline>''
      @ ''        **---------------- PART 2: EVALUATE THE FINAL ANSWER ----------------**\<newline>''
      @ ''    \<newline>''
      @ ''        **Instructions:**\<newline>''
      @ ''        Analyze the `[FINAL ANSWER]` based ONLY on the `[RETRIEVED CONTEXT]`. The answer must be fully grounded in the provided context and must directly address the `[ORIGINAL QUERY]`.\<newline>''
      @ ''    \<newline>''
      @ ''        **---------------- DATA TO EVALUATE ----------------**\<newline>''
      @ ''    \<newline>''
      @ ''        [ORIGINAL QUERY]: ''
      @ original
      @ ''\<newline>''
      @ ''    \<newline>''
      @ ''        [REWRITTEN QUERY]: ''
      @ rewritten
      @ ''\<newline>''
      @ ''    \<newline>''
      @ ''        [RETRIEVED CONTEXT]:\<newline>''
      @ ''        ''
      @ ctx
      @ ''\<newline>''
      @ ''    \<newline>''
      @ ''        [FINAL ANSWER]:\<newline>''
      @ ''        ''
      @ answer_text
      @ ''\<newline>''
      @ ''    \<newline>''
      @ ''        **---------------- YOUR JSON EVALUATION ----------------**\<newline>''
      @ ''    \<newline>''
      @ ''        **Instructions for JSON Output:**\<newline>''
      @ ''        Your entire response must be a single JSON object. Do not include any text before or after it. Use the exact keys as specified in the schema below.\<newline>''
      @ ''    \<newline>''
      @ ''        **JSON Schema:**\<newline>''
      @ ''        ```json\<newline>''
      @ ''        {\<newline>''
      @ ''          \"query_evaluation\": {\<newline>''
      @ ''            \"reasoning\": \"Provide a step-by-step analysis of the query rewrite here. Explain why it was good or bad.\",\<newline>''
      @ ''            \"score\": \"Integer between 1 and 5. 1=made it worse, 3=no real change, 5=significant improvement.\",\<newline>''
      @ ''            \"identified_issue\": \"Choose ONE: 'NONE', 'LOST_INTENT', 'TOO_BROAD', 'HALLUCINATED_DETAILS'\"\<newline>''
      @ ''          },\<newline>''
      @ ''          \"answer_evaluation\": {\<newline>''
      @ ''            \"reasoning\": \"Provide a step-by-step analysis of the final answer's quality based on the context. Explain its correctness, relevance, and completeness.\",\<newline>''
      @ ''            \"relevance_score\": \"Integer between 1 and 5.\",\<newline>''
      @ ''            \"correctness_score\": \"Integer between 1 and 5.\",\<newline>''
      @ ''            \"completeness_score\": \"Integer between 1 and 5.\",\<newline>''
      @ ''            \"identified_issue\": \"Choose ONE: 'NONE', 'HALLUCINATION', 'INCOMPLETE', 'OUT_OF_CONTEXT'\"\<newline>''
      @ ''          }\<newline>''
      @ ''        }\<newline>''
      @ ''        ```\<newline>''
      @ ''        ''"

text \<open>The evaluation that the \<open>except\<close> clause of \<open>judge_answer\<close> returns.\<close>

definition judge_failure :: "exn \<Rightarrow> json" where
  "judge_failure e =
     JObj [(''error'', JStr (exn_msg e)),
           (''query_evaluation'',
              JObj [(''reasoning'', JStr ''Failed to generate evaluation due to an API error.''),
                    (''score'', JInt 0),
                    (''identified_issue'', JStr ''JUDGE_FAILURE'')]),
           (''answer_evaluation'',
              JObj [(''reasoning'', JStr ''Failed to generate evaluation due to an API error.''),
                    (''relevance_score'', JInt 0),
                    (''correctness_score'', JInt 0),
                    (''completeness_score'', JInt 0),
                    (''identified_issue'', JStr ''JUDGE_FAILURE'')])]"

definition judge_answer ::
  "env \<Rightarrow> llm_judge \<Rightarrow> string \<Rightarrow> string \<Rightarrow> string \<Rightarrow> string \<Rightarrow> json run" where
  "judge_answer env self original rewritten ctx answer_text =
     (let prompt = create_judge_prompt self original rewritten ctx answer_text
      in py_try
           (py_bind (py_call (GenerateContent (judge_model self) prompt (Some ''application/json''))
                       (generate_content env (judge_model self) prompt (Some ''application/json'')))
              (\<lambda>response_text.
            py_bind (py_lift (json_loads env response_text))
              (\<lambda>evaluation. py_return evaluation)))
           (\<lambda>e. py_return (judge_failure e)))"

text \<open>Reading a nested field of a JSON object, for stating what an evaluation holds.\<close>

fun json_field :: "string \<Rightarrow> json \<Rightarrow> json option" where
  "json_field key (JObj kvs) = map_of kvs key"
| "json_field key v = None"

fun json_path :: "string list \<Rightarrow> json \<Rightarrow> json option" where
  "json_path [] v = Some v"
| "json_path (key # keys) v =
     (case json_field key v of None \<Rightarrow> None | Some w \<Rightarrow> json_path keys w)"

text \<open>The calls that compute an embedding.\<close>

fun computes_embedding :: "call \<Rightarrow> bool" where
  "computes_embedding (EncodeQuery q) = True"
| "computes_embedding (EncodeTexts ts b) = True"
| "computes_embedding other = False"

text \<open>The word count of a text, \<open>len(text.split())\<close>.\<close>

definition word_count :: "string \<Rightarrow> nat" where
  "word_count s = length (str_split_ws s)"

section \<open>Concrete inputs\<close>

text \<open>
  Stand-ins for the two hash functions and a pipeline object, used where a property is
  evaluated at a concrete input. The properties themselves hold for every choice.
\<close>

definition demo_lib :: pylib where
  "demo_lib = \<lparr>uuid5 = (\<lambda>ns name. (ns + int (length name)) mod 2 ^ 128), md5_hexdigest = (\<lambda>s. s)\<rparr>"

definition demo_pipeline :: pipeline where
  "demo_pipeline = \<lparr>debug_mode = False\<rparr>"

definition demo_doc :: "element list" where
  "demo_doc =
     [\<lparr>item_class = SectionHeaderItem, el_text = '' Overview '', page_ref = None\<rparr>,
      \<lparr>item_class = TextItem, el_text = ''alpha beta gamma delta epsilon zeta'', page_ref = Some 1\<rparr>,
      \<lparr>item_class = ListItem, el_text = ''too short'', page_ref = Some 1\<rparr>,
      \<lparr>item_class = OtherItem, el_text = [], page_ref = None\<rparr>]"

text \<open>
  A stand-in for \<open>str.format\<close> with keyword arguments. It agrees with Python on the
  templates used below: literal text, the escapes \<open>{{\<close> and \<open>}}\<close>, and fields
  \<open>{name}\<close> whose name is a plain identifier (no conversion, format specification,
  attribute or index). A field whose name is no keyword raises \<open>KeyError\<close>. The second
  argument is the field name read so far, reversed, when the scan is inside a field.
\<close>

definition prepend :: "string \<Rightarrow> exn + string \<Rightarrow> exn + string" where
  "prepend s r = (case r of Inl e \<Rightarrow> Inl e | Inr t \<Rightarrow> Inr (s @ t))"

fun format_scan :: "(string \<times> string) list \<Rightarrow> string option \<Rightarrow> string \<Rightarrow> exn + string" where
  "format_scan kwargs None [] = Inr []"
| "format_scan kwargs (Some nm) [] =
     Inl (Exn ''ValueError'' (''expected '' @ squote @ ''}'' @ squote @ '' before end of string''))"
| "format_scan kwargs None (c # cs) =
     (if c = CHR ''{''
      then (case cs of
              [] \<Rightarrow> Inl (Exn ''ValueError'' (''Single '' @ squote @ ''{'' @ squote
                                            @ '' encountered in format string''))
            | d # ds \<Rightarrow>
                if d = CHR ''{'' then prepend ''{'' (format_scan kwargs None ds)
                else format_scan kwargs (Some []) (d # ds))
      else if c = CHR ''}''
      then (case cs of
              [] \<Rightarrow> Inl (Exn ''ValueError'' (''Single '' @ squote @ ''}'' @ squote
                                            @ '' encountered in format string''))
            | d # ds \<Rightarrow>
                if d = CHR ''}'' then prepend ''}'' (format_scan kwargs None ds)
                else Inl (Exn ''ValueError'' (''Single '' @ squote @ ''}'' @ squote
                                              @ '' encountered in format string'')))
      else prepend [c] (format_scan kwargs None cs))"
| "format_scan kwargs (Some nm) (c # cs) =
     (if c = CHR ''}''
      then (case map_of kwargs (rev nm) of
              None \<Rightarrow> Inl (key_error (rev nm))
            | Some v \<Rightarrow> prepend v (format_scan kwargs None cs))
      else format_scan kwargs (Some (c # nm)) cs)"

definition demo_format :: "string \<Rightarrow> (string \<times> string) list \<Rightarrow> exn + string" where
  "demo_format template kwargs = format_scan kwargs None template"

definition demo_service :: rag_service where
  "demo_service =
     \<lparr>collection_name = ''my_rag_documents_v2'', generative_model = ''models/gemini-flash-latest'',
      query_rewrite_template = ''Rewrite this query: {query}'',
      answer_synthesis_template = ''Context: {context} Question: {query}''\<rparr>"

definition demo_judge :: llm_judge where
  "demo_judge = \<lparr>judge_model = ''models/gemini-2.5-pro''\<rparr>"

definition demo_point :: point_record where
  "demo_point =
     \<lparr>rec_id = ''p1'',
      rec_payload = [''source'' \<mapsto> ''doc_a.pdf'', ''text'' \<mapsto> ''Alpha is the first letter.'']\<rparr>"

definition server_error :: exn where
  "server_error = Exn ''ServerError'' ''503 UNAVAILABLE''"

text \<open>
  An environment in which every collaborator answers: the rewrite model returns a JSON
  object, the search finds one point, the synthesis model answers with two citations.
  The judge model is down.
\<close>

definition demo_env :: env where
  "demo_env =
     \<lparr>str_format = demo_format,
      json_loads =
        (\<lambda>t. case t of
               None \<Rightarrow> Inl (Exn ''TypeError'' ''the JSON object must be str, bytes or bytearray, not NoneType'')
             | Some s \<Rightarrow>
                 if s = ''{\"rewritten_query\": \"alpha first letter\"}''
                 then Inr (JObj [(''rewritten_query'', JStr ''alpha first letter'')])
                 else Inl (Exn ''JSONDecodeError'' ''Expecting value: line 1 column 1 (char 0)'')),
      generate_content =
        (\<lambda>model prompt mime.
           if model = ''models/gemini-flash-lite-latest''
           then Inr (Some ''{\"rewritten_query\": \"alpha first letter\"}'')
           else if model = ''models/gemini-flash-latest''
           then Inr (Some ''Alpha is first.\<newline>Citations:\<newline>- doc_a.pdf\<newline>- doc_b.pdf'')
           else Inl server_error),
      encode_query = (\<lambda>q. Inr [1, 0]),
      encode_texts = (\<lambda>texts batch_size. Inr (map (\<lambda>t. [1, 0]) texts)),
      get_collection = (\<lambda>c. Inr \<lparr>vectors_size = 2, points_count = 1\<rparr>),
      qd_search = (\<lambda>c v k. Inr [demo_point]),
      qd_scroll = (\<lambda>c f k. if f = source_filter ''doc_a.pdf'' then Inr ([demo_point], None) else Inr ([], None)),
      qd_delete = (\<lambda>c f. Inr ()),
      qd_upsert = (\<lambda>c ps w. Inr ()),
      path_exists = (\<lambda>p. True),
      convert =
        (\<lambda>p. if p = ''/tmp/f.pdf'' then Inr demo_doc
             else Inr [\<lparr>item_class = TextItem, el_text = ''too short'', page_ref = None\<rparr>]),
      write_doc = (\<lambda>p d. Inr ())\<rparr>"

text \<open>Variants: every generative model is down; the embedding model fails; the search
  finds nothing; the synthesis model answers without citations.\<close>

definition env_models_down :: env where
  "env_models_down = demo_env\<lparr>generate_content := (\<lambda>model prompt mime. Inl server_error)\<rparr>"

definition env_embedding_down :: env where
  "env_embedding_down = demo_env\<lparr>encode_query := (\<lambda>q. Inl (Exn ''RuntimeError'' ''embedding failed''))\<rparr>"

definition env_no_hits :: env where
  "env_no_hits = demo_env\<lparr>qd_search := (\<lambda>c v k. Inr [])\<rparr>"

definition env_plain_answer :: env where
  "env_plain_answer =
     demo_env\<lparr>generate_content :=
       (\<lambda>model prompt mime.
          if model = ''models/gemini-flash-latest'' then Inr (Some '' Alpha is first.\<newline>'')
          else generate_content demo_env model prompt mime)\<rparr>"

text \<open>A service whose synthesis template has a replacement field that \<open>generate_answer\<close>
  does not supply.\<close>

definition service_extra_field :: rag_service where
  "service_extra_field =
     demo_service\<lparr>answer_synthesis_template :=
       ''History: {history} Context: {context} Question: {query}''\<rparr>"

text \<open>The rewrite model answers with the JSON object \<open>{"rewritten_query": null}\<close>.\<close>

definition env_rewrite_null :: env where
  "env_rewrite_null =
     demo_env\<lparr>generate_content :=
                (\<lambda>model prompt mime.
                   if model = ''models/gemini-flash-lite-latest''
                   then Inr (Some ''{\"rewritten_query\": null}'')
                   else generate_content demo_env model prompt mime),
              json_loads :=
                (\<lambda>t. if t = Some ''{\"rewritten_query\": null}''
                     then Inr (JObj [(''rewritten_query'', JNull)])
                     else json_loads demo_env t)\<rparr>"

section \<open>Properties of chunk identity and chunking\<close>

text \<open>
  C1. The identifier of a chunk is computed from the source name, the chunk index and the
  first 16 hexadecimal digits of the MD5 digest of the content text, and from nothing else:
  it reads no field of the pipeline object and no other state, so two invocations on the
  same three inputs, on any two pipeline objects, return the same identifier string.
\<close>

theorem chunk_identity_deterministic:
  "generate_deterministic_id lib self1 src idx (take 16 (md5_hexdigest lib content))
     = generate_deterministic_id lib self2 src idx (take 16 (md5_hexdigest lib content))"
  by (simp add: generate_deterministic_id_def)


text \<open>Two runs of the loops that start from accumulators with the same identifiers, at
  the same index, end with the same identifiers whatever the prefix flag is.\<close>

lemma sub_chunk_loop_ids:
  assumes "map chunk_id cs1 = map chunk_id cs2"
  shows "map chunk_id (fst (sub_chunk_loop cfg1 lib self src h1 el tcs (cs1, idx)))
           = map chunk_id (fst (sub_chunk_loop cfg2 lib self src h2 el tcs (cs2, idx)))
         \<and> snd (sub_chunk_loop cfg1 lib self src h1 el tcs (cs1, idx))
           = snd (sub_chunk_loop cfg2 lib self src h2 el tcs (cs2, idx))"
  using assms by (induction tcs arbitrary: cs1 cs2 idx) (simp_all add: Let_def)

lemma element_loop_ids:
  assumes "map chunk_id cs1 = map chunk_id cs2"
    and "MAX_CHUNK_WORDS cfg1 = MAX_CHUNK_WORDS cfg2"
    and "MIN_CHUNK_WORDS cfg1 = MIN_CHUNK_WORDS cfg2"
  shows "map chunk_id (fst (element_loop cfg1 lib self src doc (cs1, h, idx)))
           = map chunk_id (fst (element_loop cfg2 lib self src doc (cs2, h, idx)))"
  using assms
proof (induction doc arbitrary: cs1 cs2 h idx)
  case Nil
  then show ?case by simp
next
  case (Cons el doc)
  let ?txt = "str_strip (el_text el)"
  let ?tcs = "split_large_chunk self ?txt (MAX_CHUNK_WORDS cfg2)"
  obtain a1 i1 where r1: "sub_chunk_loop cfg1 lib self src h el ?tcs (cs1, idx) = (a1, i1)"
    by (cases "sub_chunk_loop cfg1 lib self src h el ?tcs (cs1, idx)")
  obtain a2 i2 where r2: "sub_chunk_loop cfg2 lib self src h el ?tcs (cs2, idx) = (a2, i2)"
    by (cases "sub_chunk_loop cfg2 lib self src h el ?tcs (cs2, idx)")
  from sub_chunk_loop_ids [OF Cons.prems(1), of cfg1 lib self src h el ?tcs idx cfg2 h] r1 r2
  have same: "map chunk_id a1 = map chunk_id a2" "i1 = i2" by simp_all
  show ?case
    using Cons.IH [OF Cons.prems(1) Cons.prems(2) Cons.prems(3)]
      Cons.IH [OF same(1) Cons.prems(2) Cons.prems(3)] Cons.prems(2,3) r1 r2 same(2)
    by (simp add: Let_def)
qed

text \<open>
  C10. For every item stream and source name, the sequence of chunk identifiers that
  \<open>create_semantic_chunks_from_docs\<close> produces is the same with \<open>ADD_CONTEXT_PREFIX\<close>
  set to \<open>True\<close> and to \<open>False\<close>: the identifier hashes the raw sub-chunk text, not
  the stored text.
\<close>

theorem ids_independent_of_context_prefix:
  "map chunk_id (create_semantic_chunks_from_docs (cfg\<lparr>ADD_CONTEXT_PREFIX := True\<rparr>) lib self doc src)
     = map chunk_id (create_semantic_chunks_from_docs (cfg\<lparr>ADD_CONTEXT_PREFIX := False\<rparr>) lib self doc src)"
  unfolding create_semantic_chunks_from_docs_def
  by (rule element_loop_ids) simp_all


subsection \<open>Word counts of the emitted chunks\<close>

lemma split_ws_words_ok: "w \<in> set (str_split_ws s) \<Longrightarrow> w \<noteq> [] \<and> (\<forall>c\<in>set w. \<not> is_space c)"
proof (induction s arbitrary: w rule: str_split_ws.induct)
  case (1 s)
  show ?case
  proof (cases "dropWhile is_space s")
    case Nil
    with "1.prems" show ?thesis by (simp add: str_split_ws.simps [of s])
  next
    case (Cons c cs)
    have nsp: "\<not> is_space c"
      using hd_dropWhile [of is_space s] Cons by simp
    from "1.prems" Cons
    consider "w = takeWhile (\<lambda>x. \<not> is_space x) (c # cs)"
      | "w \<in> set (str_split_ws (dropWhile (\<lambda>x. \<not> is_space x) (c # cs)))"
      by (auto simp: str_split_ws.simps [of s])
    then show ?thesis
    proof cases
      case 1
      then show ?thesis using nsp by (auto dest: set_takeWhileD)
    next
      case 2
      then show ?thesis using "1.IH" [OF Cons] by blast
    qed
  qed
qed

lemma split_ws_space_Cons: "is_space c \<Longrightarrow> str_split_ws (c # s) = str_split_ws s"
  by (simp add: str_split_ws.simps [of "c # s"] str_split_ws.simps [of s])

lemma split_ws_Nil: "str_split_ws [] = []"
  by (simp add: str_split_ws.simps [of "[]"])

lemma split_ws_single:
  assumes "w \<noteq> []" "\<forall>c\<in>set w. \<not> is_space c"
  shows "str_split_ws w = [w]"
proof -
  obtain c cs where w: "w = c # cs" using assms(1) by (cases w) auto
  have nsp: "\<not> is_space c" using assms(2) w by simp
  have t: "takeWhile (\<lambda>x. \<not> is_space x) (c # cs) = c # cs"
    using assms(2) w by (simp add: takeWhile_eq_all_conv)
  have dd: "dropWhile (\<lambda>x. \<not> is_space x) (c # cs) = []"
    using assms(2) w by simp
  have "str_split_ws (c # cs) =
          takeWhile (\<lambda>x. \<not> is_space x) (c # cs) # str_split_ws (dropWhile (\<lambda>x. \<not> is_space x) (c # cs))"
    using nsp by (subst str_split_ws.simps) simp
  then show ?thesis
    unfolding t dd w by (simp add: split_ws_Nil)
qed

lemma split_ws_word_sep:
  assumes "w \<noteq> []" "\<forall>c\<in>set w. \<not> is_space c" "is_space d"
  shows "str_split_ws (w @ d # rest) = w # str_split_ws rest"
proof -
  obtain c cs where w: "w = c # cs" using assms(1) by (cases w) auto
  have d: "dropWhile is_space (w @ d # rest) = w @ d # rest" using assms(2) w by simp
  have t: "takeWhile (\<lambda>x. \<not> is_space x) (w @ d # rest) = w"
    using assms(2,3) by (simp add: takeWhile_append2)
  have dd: "dropWhile (\<lambda>x. \<not> is_space x) (w @ d # rest) = d # rest"
    using assms(2,3) by (simp add: dropWhile_append2)
  have "str_split_ws (w @ d # rest) = w # str_split_ws (d # rest)"
    using d t dd w by (simp add: str_split_ws.simps [of "c # cs @ d # rest"])
  then show ?thesis using assms(3) by (simp add: split_ws_space_Cons)
qed

lemma is_space_blank: "is_space (CHR '' '')"
  by (simp add: is_space_def)

lemma split_ws_join:
  "(\<forall>w\<in>set ws. w \<noteq> [] \<and> (\<forall>c\<in>set w. \<not> is_space c)) \<Longrightarrow> str_split_ws (str_join '' '' ws) = ws"
proof (induction "'' ''" ws rule: str_join.induct)
  case 1
  show ?case by (simp add: str_split_ws.simps [of "[]"])
next
  case (2 x)
  then show ?case by (simp add: split_ws_single)
next
  case (3 x y ys)
  then show ?case
    using split_ws_word_sep [of x "CHR '' ''" "str_join '' '' (y # ys)"] is_space_blank
    by simp
qed


lemma word_count_join:
  "(\<forall>w\<in>set ws. w \<noteq> [] \<and> (\<forall>c\<in>set w. \<not> is_space c)) \<Longrightarrow> word_count (str_join '' '' ws) = length ws"
  by (simp add: word_count_def split_ws_join)

lemma split_loop_exact:
  assumes "0 < m"
    and "\<forall>w\<in>set ws. w \<noteq> [] \<and> (\<forall>c\<in>set w. \<not> is_space c)"
    and "\<forall>w\<in>set cur. w \<noteq> [] \<and> (\<forall>c\<in>set w. \<not> is_space c)"
    and "int (length cur) < m"
    and "\<forall>t\<in>set chunks. int (word_count t) = m"
  shows "(\<forall>t\<in>set (fst (split_loop m ws (chunks, cur))). int (word_count t) = m)
         \<and> (\<forall>w\<in>set (snd (split_loop m ws (chunks, cur))). w \<noteq> [] \<and> (\<forall>c\<in>set w. \<not> is_space c))
         \<and> int (length (snd (split_loop m ws (chunks, cur)))) < m"
  using assms(2-5)
proof (induction ws arbitrary: chunks cur)
  case Nil
  then show ?case by simp
next
  case (Cons w ws)
  let ?cur = "cur @ [w]"
  have ok: "\<forall>v\<in>set ?cur. v \<noteq> [] \<and> (\<forall>c\<in>set v. \<not> is_space c)"
    using Cons.prems(1,2) by simp
  have rest: "\<forall>v\<in>set ws. v \<noteq> [] \<and> (\<forall>c\<in>set v. \<not> is_space c)"
    using Cons.prems(1) by simp
  show ?case
  proof (cases "int (length ?cur) \<ge> m")
    case True
    have "int (word_count (str_join '' '' ?cur)) = m"
      using word_count_join [OF ok] Cons.prems(3) True by simp
    then have chunks': "\<forall>t\<in>set (chunks @ [str_join '' '' ?cur]). int (word_count t) = m"
      using Cons.prems(4) by simp
    have "(\<forall>t\<in>set (fst (split_loop m ws (chunks @ [str_join '' '' ?cur], []))). int (word_count t) = m)
         \<and> (\<forall>w\<in>set (snd (split_loop m ws (chunks @ [str_join '' '' ?cur], []))).
               w \<noteq> [] \<and> (\<forall>c\<in>set w. \<not> is_space c))
         \<and> int (length (snd (split_loop m ws (chunks @ [str_join '' '' ?cur], [])))) < m"
    proof (rule Cons.IH [OF rest _ _ chunks'])
      show "\<forall>v\<in>set ([]::string list). v \<noteq> [] \<and> (\<forall>c\<in>set v. \<not> is_space c)" by simp
      show "int (length ([]::string list)) < m" using assms(1) by simp
    qed
    then show ?thesis
      using True by (simp add: Let_def)
  next
    case False
    then have "int (length ?cur) < m" by simp
    then show ?thesis
      using Cons.IH [OF rest ok _ Cons.prems(4)] False by (simp add: Let_def)
  qed
qed

text \<open>The pieces of a split text: each has exactly \<open>max_words\<close> words, except the last
  one, which has the remaining words.\<close>

lemma split_large_chunk_pieces:
  assumes "0 < m" and "\<not> int (length (str_split_ws txt)) \<le> m"
    and "t \<in> set (split_large_chunk self txt m)"
  shows "int (word_count t) \<le> m
         \<and> (int (word_count t) = m \<or> t = last (split_large_chunk self txt m))"
proof -
  obtain chunks cur where r: "split_loop m (str_split_ws txt) ([], []) = (chunks, cur)"
    by (cases "split_loop m (str_split_ws txt) ([], [])")
  have words: "\<forall>w\<in>set (str_split_ws txt). w \<noteq> [] \<and> (\<forall>c\<in>set w. \<not> is_space c)"
    using split_ws_words_ok by blast
  have inv: "(\<forall>t\<in>set chunks. int (word_count t) = m)
      \<and> (\<forall>w\<in>set cur. w \<noteq> [] \<and> (\<forall>c\<in>set w. \<not> is_space c)) \<and> int (length cur) < m"
    using split_loop_exact [OF assms(1) words, of "[]" "[]"] assms(1) r by simp
  then have rem: "int (word_count (str_join '' '' cur)) \<le> m"
    using word_count_join [of cur] by simp
  show ?thesis
  proof (cases "cur = []")
    case True
    then have "split_large_chunk self txt m = chunks"
      using assms(2) r by (simp add: split_large_chunk_def)
    with inv assms(3) show ?thesis by simp
  next
    case False
    then have res: "split_large_chunk self txt m = chunks @ [str_join '' '' cur]"
      using assms(2) r by (simp add: split_large_chunk_def)
    with inv rem assms(3) show ?thesis by auto
  qed
qed

lemma split_large_chunk_bound:
  assumes "0 < m" "t \<in> set (split_large_chunk self txt m)"
  shows "int (word_count t) \<le> m"
proof (cases "int (length (str_split_ws txt)) \<le> m")
  case True
  with assms(2) show ?thesis by (simp add: split_large_chunk_def word_count_def)
next
  case False
  from split_large_chunk_pieces [OF assms(1) False assms(2)] show ?thesis by simp
qed



















section \<open>Properties of the query path\<close>

lemmas run_defs = py_bind_def py_call_def py_return_def py_lift_def py_try_def py_raise_def

text \<open>Once its prompt is formatted, a method with a handler returns.\<close>

lemma rewrite_query_returns:
  "rewrite_prompt env self query = Inr p \<Longrightarrow> \<exists>v. fst (rewrite_query env self query) = Inr v"
  by (auto simp: rewrite_query_def run_defs Let_def split: sum.splits prod.splits)

lemma generate_answer_returns:
  "synthesis_prompt env self query ctx = Inr p \<Longrightarrow> \<exists>g. fst (generate_answer env self query ctx) = Inr g"
  by (auto simp: generate_answer_def run_defs Let_def split: sum.splits prod.splits)

text \<open>On an empty context \<open>generate_answer\<close> issues no call, whatever the formatting does.\<close>

lemma generate_answer_empty_calls: "snd (generate_answer env self query []) = []"
  by (auto simp: generate_answer_def run_defs split: sum.splits prod.splits)

lemma generate_answer_empty:
  "synthesis_prompt env self query [] = Inr p \<Longrightarrow>
   generate_answer env self query [] = (Inr \<lparr>answer = no_information_answer, cited_docs = []\<rparr>, [])"
  by (simp add: generate_answer_def run_defs)

text \<open>\<open>ask\<close>, once the rewrite has returned: the retrieval either raises, and so does
  \<open>ask\<close>, or returns, and the synthesis follows.\<close>

lemma ask_unfold:
  assumes "rewrite_query env self query = (Inr rq, c1)"
  shows "ask env self query =
     (case retrieve_context env self rq 7 of
        (Inl e, c2) \<Rightarrow> (Inl e, c1 @ c2)
      | (Inr r, c2) \<Rightarrow>
          (case generate_answer env self query (rr_context r) of
             (Inl e, c3) \<Rightarrow> (Inl e, c1 @ c2 @ c3)
           | (Inr g, c3) \<Rightarrow>
               (Inr \<lparr>original_query = query, rewritten_query = rq, res_context = rr_context r,
                     res_answer = answer g, res_cited_docs = cited_docs g,
                     referenced_docs = rr_sources r\<rparr>, c1 @ c2 @ c3)))"
  using assms by (simp add: ask_def run_defs split: sum.splits prod.splits)

text \<open>
  C2, as the code has it. Provided the two prompt templates format (the formatting is
  outside the \<open>try\<close> blocks), the rewrite step and the synthesis step never raise,
  whatever their model calls do: \<open>ask\<close> returns a result with all six fields whenever
  the retrieval step returns. The retrieval step has no handler: when it raises (the
  embedding, the collection lookup, the search or a payload access), \<open>ask\<close> raises the
  same exception.
\<close>

theorem ask_returns_unless_retrieval_raises:
  assumes "rewrite_prompt env self query = Inr p1"
  shows "\<exists>rewritten. fst (rewrite_query env self query) = Inr rewritten \<and>
     (case fst (retrieve_context env self rewritten 7) of
        Inl e \<Rightarrow> fst (ask env self query) = Inl e
      | Inr retrieval \<Rightarrow>
          (\<forall>p2. synthesis_prompt env self query (rr_context retrieval) = Inr p2 \<longrightarrow>
             (\<exists>generation.
                fst (generate_answer env self query (rr_context retrieval)) = Inr generation \<and>
                fst (ask env self query) =
                  Inr \<lparr>original_query = query, rewritten_query = rewritten,
                       res_context = rr_context retrieval, res_answer = answer generation,
                       res_cited_docs = cited_docs generation,
                       referenced_docs = rr_sources retrieval\<rparr>)))"
proof -
  obtain rq where rq: "fst (rewrite_query env self query) = Inr rq"
    using rewrite_query_returns [OF assms] by blast
  then obtain c1 where rw: "rewrite_query env self query = (Inr rq, c1)"
    by (cases "rewrite_query env self query") auto
  show ?thesis
  proof (cases "retrieve_context env self rq 7")
    case (Pair res c2)
    show ?thesis
    proof (cases res)
      case (Inl e)
      with Pair rq ask_unfold [OF rw] show ?thesis by auto
    next
      case (Inr r)
      have "\<exists>generation.
                fst (generate_answer env self query (rr_context r)) = Inr generation \<and>
                fst (ask env self query) =
                  Inr \<lparr>original_query = query, rewritten_query = rq,
                       res_context = rr_context r, res_answer = answer generation,
                       res_cited_docs = cited_docs generation,
                       referenced_docs = rr_sources r\<rparr>"
        if h: "synthesis_prompt env self query (rr_context r) = Inr p2" for p2
      proof -
        obtain g where g: "fst (generate_answer env self query (rr_context r)) = Inr g"
          using generate_answer_returns [OF h] by blast
        then obtain c3 where "generate_answer env self query (rr_context r) = (Inr g, c3)"
          by (cases "generate_answer env self query (rr_context r)") auto
        with Inr Pair ask_unfold [OF rw] show ?thesis by auto
      qed
      with Inr Pair rq show ?thesis by auto
    qed
  qed
qed

text \<open>With every generative model down and the retrieval working, \<open>ask\<close> returns: the
  original query is the retrieval query and the answer is the error text.\<close>

theorem ask_returns_unless_retrieval_raises_witness:
  "rewrite_prompt env_models_down demo_service ''what is alpha''
     = Inr (''Rewrite this query: what is alpha'' @ rewrite_suffix)
   \<and> fst (ask env_models_down demo_service ''what is alpha'') =
     Inr \<lparr>original_query = ''what is alpha'', rewritten_query = JStr ''what is alpha'',
          res_context = ''[Source: doc_a.pdf]\<newline>Alpha is the first letter.\<newline>---\<newline>'',
          res_answer = ''An error occurred while generating the answer: 503 UNAVAILABLE'',
          res_cited_docs = [], referenced_docs = {''doc_a.pdf''}\<rparr>"
proof -
  have h1: "rewrite_prompt env_models_down demo_service ''what is alpha''
     = Inr (''Rewrite this query: what is alpha'' @ rewrite_suffix)"
    by code_simp
  have rq: "fst (rewrite_query env_models_down demo_service ''what is alpha'') = Inr (JStr ''what is alpha'')"
    by code_simp
  have rc: "fst (retrieve_context env_models_down demo_service (JStr ''what is alpha'') 7) =
      Inr \<lparr>rr_context = ''[Source: doc_a.pdf]\<newline>Alpha is the first letter.\<newline>---\<newline>'',
           rr_sources = {''doc_a.pdf''}\<rparr>"
    by code_simp
  have sp: "synthesis_prompt env_models_down demo_service ''what is alpha''
                  ''[Source: doc_a.pdf]\<newline>Alpha is the first letter.\<newline>---\<newline>''
      = Inr (''Context: [Source: doc_a.pdf]\<newline>Alpha is the first letter.\<newline>---\<newline>''
             @ '' Question: what is alpha'')"
    by code_simp
  have ga: "fst (generate_answer env_models_down demo_service ''what is alpha''
                  ''[Source: doc_a.pdf]\<newline>Alpha is the first letter.\<newline>---\<newline>'') =
      Inr \<lparr>answer = ''An error occurred while generating the answer: 503 UNAVAILABLE'',
           cited_docs = []\<rparr>"
    by code_simp
  from ask_returns_unless_retrieval_raises [OF h1] sp
  have "fst (ask env_models_down demo_service ''what is alpha'') =
     Inr \<lparr>original_query = ''what is alpha'', rewritten_query = JStr ''what is alpha'',
          res_context = ''[Source: doc_a.pdf]\<newline>Alpha is the first letter.\<newline>---\<newline>'',
          res_answer = ''An error occurred while generating the answer: 503 UNAVAILABLE'',
          res_cited_docs = [], referenced_docs = {''doc_a.pdf''}\<rparr>"
    unfolding rq by (auto simp: rc ga)
  with h1 show ?thesis by blast
qed

text \<open>With the embedding model failing, \<open>ask\<close> raises that failure to its caller.\<close>

theorem ask_never_raises_counterexample:
  "fst (ask env_embedding_down demo_service ''what is alpha'')
     = Inl (Exn ''RuntimeError'' ''embedding failed'')"
  by code_simp

text \<open>
  C4, as the code has it. When the retrieval returns an empty context,
  \<open>generate_answer\<close> issues no call, so that the calls of \<open>ask\<close> are those of the
  rewrite and of the retrieval. The prompt is formatted before the test for an empty
  context: provided the synthesis template formats, \<open>generate_answer\<close> returns the fixed
  answer with no citations, and the answer and citations of \<open>ask\<close> are the fixed ones.
\<close>

theorem empty_context_short_circuit:
  assumes "rewrite_query env self query = (Inr rq, c1)"
    and "retrieve_context env self rq 7 = (Inr r, c2)"
    and "rr_context r = []"
  shows "snd (generate_answer env self query (rr_context r)) = []
         \<and> snd (ask env self query) = c1 @ c2
         \<and> (\<forall>p. synthesis_prompt env self query (rr_context r) = Inr p \<longrightarrow>
              generate_answer env self query (rr_context r)
                = (Inr \<lparr>answer = no_information_answer, cited_docs = []\<rparr>, [])
              \<and> ask env self query =
                  (Inr \<lparr>original_query = query, rewritten_query = rq, res_context = [],
                        res_answer = no_information_answer, res_cited_docs = [],
                        referenced_docs = rr_sources r\<rparr>, c1 @ c2))"
proof (intro conjI allI impI)
  show a: "snd (generate_answer env self query (rr_context r)) = []"
    using assms(3) by (simp add: generate_answer_empty_calls)
  show "snd (ask env self query) = c1 @ c2"
    using a assms(2) unfolding ask_unfold [OF assms(1)]
    by (cases "generate_answer env self query (rr_context r)") (auto split: sum.splits)
next
  fix p
  assume p: "synthesis_prompt env self query (rr_context r) = Inr p"
  then show g: "generate_answer env self query (rr_context r)
      = (Inr \<lparr>answer = no_information_answer, cited_docs = []\<rparr>, [])"
    using assms(3) generate_answer_empty [of env self query p] by simp
  show "ask env self query =
      (Inr \<lparr>original_query = query, rewritten_query = rq, res_context = [],
            res_answer = no_information_answer, res_cited_docs = [],
            referenced_docs = rr_sources r\<rparr>, c1 @ c2)"
    unfolding ask_unfold [OF assms(1)] using assms(2,3) g by simp
qed

theorem empty_context_short_circuit_witness:
  "rewrite_query env_no_hits demo_service ''what is alpha''
     = (Inr (JStr ''alpha first letter''),
        [GenerateContent ''models/gemini-flash-lite-latest''
           (''Rewrite this query: what is alpha'' @ rewrite_suffix) (Some ''application/json'')])
   \<and> retrieve_context env_no_hits demo_service (JStr ''alpha first letter'') 7
     = (Inr \<lparr>rr_context = [], rr_sources = {}\<rparr>,
        [EncodeQuery (JStr ''alpha first letter''), GetCollection ''my_rag_documents_v2'',
         Search ''my_rag_documents_v2'' [1, 0] 7])
   \<and> synthesis_prompt env_no_hits demo_service ''what is alpha'' []
     = Inr ''Context:  Question: what is alpha''
   \<and> ask env_no_hits demo_service ''what is alpha''
     = (Inr \<lparr>original_query = ''what is alpha'', rewritten_query = JStr ''alpha first letter'',
             res_context = [], res_answer = no_information_answer, res_cited_docs = [],
             referenced_docs = {}\<rparr>,
        [GenerateContent ''models/gemini-flash-lite-latest''
           (''Rewrite this query: what is alpha'' @ rewrite_suffix) (Some ''application/json''),
         EncodeQuery (JStr ''alpha first letter''), GetCollection ''my_rag_documents_v2'',
         Search ''my_rag_documents_v2'' [1, 0] 7])"
proof -
  have h1: "rewrite_query env_no_hits demo_service ''what is alpha''
     = (Inr (JStr ''alpha first letter''),
        [GenerateContent ''models/gemini-flash-lite-latest''
           (''Rewrite this query: what is alpha'' @ rewrite_suffix) (Some ''application/json'')])"
    by code_simp
  have h2: "retrieve_context env_no_hits demo_service (JStr ''alpha first letter'') 7
     = (Inr \<lparr>rr_context = [], rr_sources = {}\<rparr>,
        [EncodeQuery (JStr ''alpha first letter''), GetCollection ''my_rag_documents_v2'',
         Search ''my_rag_documents_v2'' [1, 0] 7])"
    by code_simp
  have h3: "rr_context \<lparr>rr_context = [], rr_sources = {}\<rparr> = []"
    by simp
  have h4: "synthesis_prompt env_no_hits demo_service ''what is alpha'' []
     = Inr ''Context:  Question: what is alpha''"
    by code_simp
  from empty_context_short_circuit [OF h1 h2 h3] h1 h2 h4 show ?thesis
    by simp
qed

text \<open>
  A synthesis template with a field that \<open>generate_answer\<close> does not supply: the
  retrieval returns an empty context, the formatting raises \<open>KeyError\<close> before the test
  for an empty context, and \<open>generate_answer\<close> and \<open>ask\<close> raise it instead of returning
  the fixed answer.
\<close>

theorem empty_context_short_circuit_counterexample:
  "fst (retrieve_context env_no_hits service_extra_field (JStr ''alpha first letter'') 7)
     = Inr \<lparr>rr_context = [], rr_sources = {}\<rparr>
   \<and> fst (generate_answer env_no_hits service_extra_field ''what is alpha'' [])
     = Inl (key_error ''history'')
   \<and> fst (ask env_no_hits service_extra_field ''what is alpha'') = Inl (key_error ''history'')"
  by code_simp

text \<open>
  Where the fallback of \<open>rewrite_query\<close> works: when the rewrite call raises, or
  \<open>json.loads\<close> raises on its response, or the parsed value holds nothing under
  \<open>rewritten_query\<close> (it is no object, or an object without that key), the method
  returns the original query, \<open>ask\<close> embeds the original query right after the rewrite
  call, and the result of \<open>ask\<close> has the original query in its \<open>rewritten_query\<close> field.
\<close>

lemma rewrite_fallback:
  assumes "rewrite_prompt env self query = Inr prompt"
    and "(\<exists>e. generate_content env ''models/gemini-flash-lite-latest'' prompt
                   (Some ''application/json'') = Inl e)
           \<or> (\<exists>t e. generate_content env ''models/gemini-flash-lite-latest'' prompt
                       (Some ''application/json'') = Inr t
                     \<and> json_loads env t = Inl e)
           \<or> (\<exists>t v. generate_content env ''models/gemini-flash-lite-latest'' prompt
                       (Some ''application/json'') = Inr t
                     \<and> json_loads env t = Inr v
                     \<and> json_field ''rewritten_query'' v = None)"
  shows "fst (rewrite_query env self query) = Inr (JStr query)
         \<and> take 2 (snd (ask env self query))
             = [GenerateContent ''models/gemini-flash-lite-latest'' prompt (Some ''application/json''),
                EncodeQuery (JStr query)]
         \<and> (\<forall>res. fst (ask env self query) = Inr res \<longrightarrow> rewritten_query res = JStr query)"
proof -
  let ?c1 = "[GenerateContent ''models/gemini-flash-lite-latest'' prompt (Some ''application/json'')]"
  have rw: "rewrite_query env self query = (Inr (JStr query), ?c1)"
    using assms(2)
  proof (elim disjE exE conjE)
    fix e
    assume "generate_content env ''models/gemini-flash-lite-latest'' prompt
              (Some ''application/json'') = Inl e"
    then show ?thesis using assms(1) by (simp add: rewrite_query_def run_defs)
  next
    fix t e
    assume "generate_content env ''models/gemini-flash-lite-latest'' prompt
              (Some ''application/json'') = Inr t"
      and "json_loads env t = Inl e"
    then show ?thesis using assms(1) by (simp add: rewrite_query_def run_defs)
  next
    fix t v
    assume "generate_content env ''models/gemini-flash-lite-latest'' prompt
              (Some ''application/json'') = Inr t"
      and "json_loads env t = Inr v"
      and "json_field ''rewritten_query'' v = None"
    then show ?thesis
      using assms(1) by (cases v) (simp_all add: rewrite_query_def run_defs)
  qed
  have calls: "take 2 (snd (ask env self query)) = ?c1 @ [EncodeQuery (JStr query)]"
    unfolding ask_unfold [OF rw]
    by (auto simp: retrieve_context_def run_defs split: sum.splits prod.splits)
  have field: "rewritten_query res = JStr query" if "fst (ask env self query) = Inr res" for res
    using that unfolding ask_unfold [OF rw]
    by (auto split: sum.splits prod.splits)
  show ?thesis
    using rw calls field by simp
qed

text \<open>
  C5. The model answers the rewrite call with the JSON object
  \<open>{"rewritten_query": null}\<close>, from which no rewritten query can be parsed. The key is
  present, so \<open>.get("rewritten_query", query)\<close> does not fall back: \<open>rewrite_query\<close>
  returns \<open>None\<close>, \<open>ask\<close> embeds \<open>None\<close> as the retrieval query, and the
  \<open>rewritten_query\<close> field of the result is \<open>None\<close>, not the original query.
\<close>

theorem rewrite_null_not_fallback:
  "generate_content env_rewrite_null ''models/gemini-flash-lite-latest''
      (''Rewrite this query: what is alpha'' @ rewrite_suffix) (Some ''application/json'')
     = Inr (Some ''{\"rewritten_query\": null}'')
   \<and> json_loads env_rewrite_null (Some ''{\"rewritten_query\": null}'')
     = Inr (JObj [(''rewritten_query'', JNull)])
   \<and> fst (rewrite_query env_rewrite_null demo_service ''what is alpha'') = Inr JNull
   \<and> take 2 (snd (ask env_rewrite_null demo_service ''what is alpha''))
     = [GenerateContent ''models/gemini-flash-lite-latest''
          (''Rewrite this query: what is alpha'' @ rewrite_suffix) (Some ''application/json''),
        EncodeQuery JNull]
   \<and> fst (ask env_rewrite_null demo_service ''what is alpha'')
     = Inr \<lparr>original_query = ''what is alpha'', rewritten_query = JNull,
            res_context = ''[Source: doc_a.pdf]\<newline>Alpha is the first letter.\<newline>---\<newline>'',
            res_answer = ''Alpha is first.'', res_cited_docs = [''doc_a.pdf'', ''doc_b.pdf''],
            referenced_docs = {''doc_a.pdf''}\<rparr>"
  by code_simp

subsection \<open>Parsing the citations\<close>

lemma str_contains_prefix: "prefix sub s \<Longrightarrow> str_contains sub s"
  by (cases s) simp_all

lemma str_contains_append: "str_contains sub (a @ sub @ b)"
proof (induction a)
  case Nil
  show ?case by (simp add: str_contains_prefix)
next
  case (Cons c a)
  then show ?case by simp
qed

text \<open>A separator whose first character does not occur in its rest cannot overlap
  itself: the first split is at its first occurrence.\<close>

lemma str_split_first:
  assumes "d \<notin> set ds" and "\<not> str_contains (d # ds) body"
  shows "str_split d ds (body @ (d # ds) @ rest) = body # str_split d ds rest"
  using assms(2)
proof (induction body)
  case Nil
  show ?case by simp
next
  case (Cons c cs)
  from Cons.prems have np: "\<not> prefix (d # ds) (c # cs)" and nc: "\<not> str_contains (d # ds) cs"
    by simp_all
  have "\<not> prefix (d # ds) (c # cs @ (d # ds) @ rest)"
  proof
    assume p: "prefix (d # ds) (c # cs @ (d # ds) @ rest)"
    then have cd: "c = d" and pds: "prefix ds (cs @ (d # ds) @ rest)"
      by auto
    from pds consider "prefix ds cs" | us where "ds = cs @ us" "prefix us ((d # ds) @ rest)"
      by (auto simp: prefix_append)
    then show False
    proof cases
      case 1
      with cd np show False by simp
    next
      case 2
      show False
      proof (cases us)
        case Nil
        with 2 cd np show False by simp
      next
        case (Cons u us')
        with 2 have "u = d" by simp
        with 2 Cons assms(1) show False by simp
      qed
    qed
  qed
  then show ?case
    using Cons.IH [OF nc] by simp
qed

lemma citations_block_parsed:
  assumes "\<not> str_contains ''\<newline>Citations:'' body"
  shows "parse_response (Some (body @ ''\<newline>Citations:\<newline>- doc_a.pdf\<newline>- doc_b.pdf''))
           = Inr \<lparr>answer = str_strip body, cited_docs = [''doc_a.pdf'', ''doc_b.pdf'']\<rparr>"
proof -
  have c: "str_contains ''\<newline>Citations:'' (body @ ''\<newline>Citations:\<newline>- doc_a.pdf\<newline>- doc_b.pdf'')"
    using str_contains_append [of "''\<newline>Citations:''" body "''\<newline>- doc_a.pdf\<newline>- doc_b.pdf''"]
    by simp
  have tail: "str_split (CHR 0x0A) ''Citations:'' ''\<newline>- doc_a.pdf\<newline>- doc_b.pdf''
      = [''\<newline>- doc_a.pdf\<newline>- doc_b.pdf'']"
    by code_simp
  have "str_split (CHR 0x0A) ''Citations:''
          (body @ (CHR 0x0A # ''Citations:'') @ ''\<newline>- doc_a.pdf\<newline>- doc_b.pdf'')
        = body # str_split (CHR 0x0A) ''Citations:'' ''\<newline>- doc_a.pdf\<newline>- doc_b.pdf''"
    using assms by (intro str_split_first) simp_all
  then have parts: "str_split (CHR 0x0A) ''Citations:''
          (body @ ''\<newline>Citations:\<newline>- doc_a.pdf\<newline>- doc_b.pdf'')
        = [body, ''\<newline>- doc_a.pdf\<newline>- doc_b.pdf'']"
    using tail by simp
  have docs: "map (\<lambda>line. str_strip (str_lstrip ''- '' (str_strip line)))
                (filter (\<lambda>line. str_strip line \<noteq> [])
                   (str_split (CHR 0x0A) [] (str_strip ''\<newline>- doc_a.pdf\<newline>- doc_b.pdf'')))
              = [''doc_a.pdf'', ''doc_b.pdf'']"
    by code_simp
  show ?thesis
    unfolding parse_response_def using c by (simp only: option.case if_True parts list.case Let_def docs)
qed

text \<open>
  C6. With a non-empty context and the prompt formatted, when the synthesis model answers
  with a text that ends
  in the block \<open>"\nCitations:\n- doc_a.pdf\n- doc_b.pdf"\<close>, and the delimiter does not
  occur before that block, \<open>generate_answer\<close> returns the stripped text before the
  delimiter as the answer and the two documents as \<open>cited_docs\<close>. When the answer does
  not contain the delimiter, the whole stripped text is the answer and \<open>cited_docs\<close> is
  empty.
\<close>

theorem citation_parsing:
  assumes "ctx \<noteq> []" and "synthesis_prompt env self query ctx = Inr prompt"
  shows "(\<not> str_contains ''\<newline>Citations:'' body \<longrightarrow>
            generate_content env (generative_model self) prompt None
              = Inr (Some (body @ ''\<newline>Citations:\<newline>- doc_a.pdf\<newline>- doc_b.pdf'')) \<longrightarrow>
            fst (generate_answer env self query ctx)
              = Inr \<lparr>answer = str_strip body, cited_docs = [''doc_a.pdf'', ''doc_b.pdf'']\<rparr>)
         \<and> (\<not> str_contains ''\<newline>Citations:'' full_text \<longrightarrow>
            generate_content env (generative_model self) prompt None
              = Inr (Some full_text) \<longrightarrow>
            fst (generate_answer env self query ctx)
              = Inr \<lparr>answer = str_strip full_text, cited_docs = []\<rparr>)"
proof (intro conjI impI)
  assume "\<not> str_contains ''\<newline>Citations:'' body"
    and "generate_content env (generative_model self) prompt None
           = Inr (Some (body @ ''\<newline>Citations:\<newline>- doc_a.pdf\<newline>- doc_b.pdf''))"
  then show "fst (generate_answer env self query ctx)
      = Inr \<lparr>answer = str_strip body, cited_docs = [''doc_a.pdf'', ''doc_b.pdf'']\<rparr>"
    using assms citations_block_parsed [of body]
    by (simp add: generate_answer_def run_defs)
next
  assume "\<not> str_contains ''\<newline>Citations:'' full_text"
    and "generate_content env (generative_model self) prompt None
           = Inr (Some full_text)"
  then show "fst (generate_answer env self query ctx)
      = Inr \<lparr>answer = str_strip full_text, cited_docs = []\<rparr>"
    using assms by (simp add: generate_answer_def run_defs parse_response_def)
qed

theorem citation_parsing_witness:
  "''ctx'' \<noteq> []
   \<and> \<not> str_contains ''\<newline>Citations:'' ''Alpha is first.''
   \<and> generate_content demo_env (generative_model demo_service)
        ''Context: ctx Question: what is alpha'' None
       = Inr (Some (''Alpha is first.'' @ ''\<newline>Citations:\<newline>- doc_a.pdf\<newline>- doc_b.pdf''))
   \<and> fst (generate_answer demo_env demo_service ''what is alpha'' ''ctx'')
       = Inr \<lparr>answer = ''Alpha is first.'', cited_docs = [''doc_a.pdf'', ''doc_b.pdf'']\<rparr>
   \<and> \<not> str_contains ''\<newline>Citations:'' '' Alpha is first.\<newline>''
   \<and> generate_content env_plain_answer (generative_model demo_service)
        ''Context: ctx Question: what is alpha'' None
       = Inr (Some '' Alpha is first.\<newline>'')
   \<and> fst (generate_answer env_plain_answer demo_service ''what is alpha'' ''ctx'')
       = Inr \<lparr>answer = ''Alpha is first.'', cited_docs = []\<rparr>"
proof -
  have h0: "''ctx'' \<noteq> []" by simp
  have p1: "synthesis_prompt demo_env demo_service ''what is alpha'' ''ctx''
      = Inr ''Context: ctx Question: what is alpha''"
    by code_simp
  have p2: "synthesis_prompt env_plain_answer demo_service ''what is alpha'' ''ctx''
      = Inr ''Context: ctx Question: what is alpha''"
    by code_simp
  have h1: "\<not> str_contains ''\<newline>Citations:'' ''Alpha is first.''"
    by code_simp
  have h2: "generate_content demo_env (generative_model demo_service)
        ''Context: ctx Question: what is alpha'' None
       = Inr (Some (''Alpha is first.'' @ ''\<newline>Citations:\<newline>- doc_a.pdf\<newline>- doc_b.pdf''))"
    by (simp add: demo_env_def demo_service_def)
  have h3: "\<not> str_contains ''\<newline>Citations:'' '' Alpha is first.\<newline>''"
    by code_simp
  have h4: "generate_content env_plain_answer (generative_model demo_service)
        ''Context: ctx Question: what is alpha'' None
       = Inr (Some '' Alpha is first.\<newline>'')"
    by (simp add: env_plain_answer_def demo_service_def)
  have s1: "str_strip ''Alpha is first.'' = ''Alpha is first.''" by code_simp
  have s2: "str_strip '' Alpha is first.\<newline>'' = ''Alpha is first.''" by code_simp
  from citation_parsing [OF h0 p1, of "''Alpha is first.''"] h1 h2
  have a: "fst (generate_answer demo_env demo_service ''what is alpha'' ''ctx'')
       = Inr \<lparr>answer = ''Alpha is first.'', cited_docs = [''doc_a.pdf'', ''doc_b.pdf'']\<rparr>"
    unfolding s1 by blast
  from citation_parsing [OF h0 p2, of _ "'' Alpha is first.\<newline>''"] h3 h4
  have b: "fst (generate_answer env_plain_answer demo_service ''what is alpha'' ''ctx'')
       = Inr \<lparr>answer = ''Alpha is first.'', cited_docs = []\<rparr>"
    unfolding s2 by blast
  from h0 h1 h2 h3 h4 a b show ?thesis by blast
qed

section \<open>Properties of deleting and processing a document\<close>

text \<open>
  C7. When the file exists, the conversion returns a document and its chunking yields no
  chunk, \<open>process_document\<close> issues neither an embedding call nor a call that changes the
  vector store, and, the debug dump of the document apart (written only in debug mode,
  before the chunking), it ends without an exception, reporting that no chunks were
  extracted.
\<close>

theorem no_chunks_no_mutation:
  assumes "path_exists env filepath"
    and "convert env filepath = Inr doc"
    and "create_semantic_chunks_from_docs cfg lib self doc (basename filepath) = []"
  shows "(\<forall>c\<in>set (snd (process_document cfg lib env self filepath)).
            \<not> computes_embedding c \<and> \<not> mutates_store c)
         \<and> (fst (save_raw_doc_to_file env self doc ''doc_structure.txt'') = Inr () \<longrightarrow>
              fst (process_document cfg lib env self filepath) = Inr NoChunksExtracted)
         \<and> (\<not> debug_mode self \<longrightarrow>
              process_document cfg lib env self filepath
                = (Inr NoChunksExtracted, [PathExists filepath, Convert filepath]))"
  using assms
  by (auto simp: process_document_def save_raw_doc_to_file_def run_defs Let_def
      split: sum.splits prod.splits)

theorem no_chunks_no_mutation_witness:
  "path_exists demo_env ''/tmp/empty.pdf''
   \<and> convert demo_env ''/tmp/empty.pdf''
       = Inr [\<lparr>item_class = TextItem, el_text = ''too short'', page_ref = None\<rparr>]
   \<and> create_semantic_chunks_from_docs default_config demo_lib demo_pipeline
        [\<lparr>item_class = TextItem, el_text = ''too short'', page_ref = None\<rparr>] (basename ''/tmp/empty.pdf'') = []
   \<and> \<not> debug_mode demo_pipeline
   \<and> process_document default_config demo_lib demo_env demo_pipeline ''/tmp/empty.pdf''
       = (Inr NoChunksExtracted, [PathExists ''/tmp/empty.pdf'', Convert ''/tmp/empty.pdf''])"
proof -
  have h1: "path_exists demo_env ''/tmp/empty.pdf''"
    by (simp add: demo_env_def)
  have h2: "convert demo_env ''/tmp/empty.pdf''
       = Inr [\<lparr>item_class = TextItem, el_text = ''too short'', page_ref = None\<rparr>]"
    by (simp add: demo_env_def)
  have h3: "create_semantic_chunks_from_docs default_config demo_lib demo_pipeline
        [\<lparr>item_class = TextItem, el_text = ''too short'', page_ref = None\<rparr>] (basename ''/tmp/empty.pdf'') = []"
    by code_simp
  have h4: "\<not> debug_mode demo_pipeline"
    by (simp add: demo_pipeline_def)
  from no_chunks_no_mutation [OF h1 h2 h3] h1 h2 h3 h4 show ?thesis
    by blast
qed

text \<open>
  C8. \<open>delete_document\<close> first probes with a scroll, filtered on the source field, with
  limit 1. When the probe returns no point, the method reports that no points were found
  and its only call is the probe: no call changes the vector store. When the probe
  returns a point, the calls are the probe and exactly one delete, whose filter has the
  single condition that the source field equals the given source name: it matches a
  payload exactly when the payload's source is that name.
\<close>

theorem delete_document_probe:
  "(\<forall>off. qd_scroll env (COLLECTION_NAME cfg) (source_filter src) 1 = Inr ([], off) \<longrightarrow>
       delete_document cfg env self src
         = (Inr NoPointsFound, [Scroll (COLLECTION_NAME cfg) (source_filter src) 1])
       \<and> filter mutates_store (snd (delete_document cfg env self src)) = [])
   \<and> (\<forall>p ps off. qd_scroll env (COLLECTION_NAME cfg) (source_filter src) 1 = Inr (p # ps, off) \<longrightarrow>
       snd (delete_document cfg env self src)
         = [Scroll (COLLECTION_NAME cfg) (source_filter src) 1,
            Delete (COLLECTION_NAME cfg) (source_filter src)]
       \<and> filter mutates_store (snd (delete_document cfg env self src))
         = [Delete (COLLECTION_NAME cfg) (source_filter src)])
   \<and> source_filter src = Filter [FieldCondition ''source'' src]
   \<and> (\<forall>pl. filter_matches (source_filter src) pl \<longleftrightarrow> pl ''source'' = Some src)"
  by (auto simp: delete_document_def run_defs source_filter_def filter_matches_def
      split: sum.splits prod.splits)

theorem delete_document_probe_witness:
  "qd_scroll demo_env (COLLECTION_NAME default_config) (source_filter ''unknown.pdf'') 1 = Inr ([], None)
   \<and> delete_document default_config demo_env demo_pipeline ''unknown.pdf''
       = (Inr NoPointsFound, [Scroll ''my_rag_documents_v2'' (source_filter ''unknown.pdf'') 1])
   \<and> qd_scroll demo_env (COLLECTION_NAME default_config) (source_filter ''doc_a.pdf'') 1
       = Inr ([demo_point], None)
   \<and> snd (delete_document default_config demo_env demo_pipeline ''doc_a.pdf'')
       = [Scroll ''my_rag_documents_v2'' (source_filter ''doc_a.pdf'') 1,
          Delete ''my_rag_documents_v2'' (source_filter ''doc_a.pdf'')]"
proof -
  have h1: "qd_scroll demo_env (COLLECTION_NAME default_config) (source_filter ''unknown.pdf'') 1
      = Inr ([], None)"
    by (simp add: demo_env_def source_filter_def)
  have h2: "qd_scroll demo_env (COLLECTION_NAME default_config) (source_filter ''doc_a.pdf'') 1
      = Inr ([demo_point], None)"
    by (simp add: demo_env_def)
  have n: "COLLECTION_NAME default_config = ''my_rag_documents_v2''"
    by (simp add: default_config_def)
  from delete_document_probe [of demo_env default_config "''unknown.pdf''" demo_pipeline] h1
  have a: "delete_document default_config demo_env demo_pipeline ''unknown.pdf''
       = (Inr NoPointsFound, [Scroll (COLLECTION_NAME default_config) (source_filter ''unknown.pdf'') 1])"
    by blast
  from delete_document_probe [of demo_env default_config "''doc_a.pdf''" demo_pipeline] h2
  have b: "snd (delete_document default_config demo_env demo_pipeline ''doc_a.pdf'')
       = [Scroll (COLLECTION_NAME default_config) (source_filter ''doc_a.pdf'') 1,
          Delete (COLLECTION_NAME default_config) (source_filter ''doc_a.pdf'')]"
    by blast
  from h1 h2 a b show ?thesis
    unfolding n by blast
qed

section \<open>Properties of the judge\<close>

text \<open>
  C9. When the judge-model call raises, or \<open>json.loads\<close> raises on its response,
  \<open>judge_answer\<close> returns, without raising, the failure evaluation: the query score and
  the three answer scores are 0 and both \<open>identified_issue\<close> tags are \<open>JUDGE_FAILURE\<close>.
\<close>

theorem judge_failure_sentinel:
  assumes "generate_content env (judge_model self)
             (create_judge_prompt self original rewritten ctx answer_text) (Some ''application/json'') = Inl e
           \<or> (\<exists>t. generate_content env (judge_model self)
                  (create_judge_prompt self original rewritten ctx answer_text) (Some ''application/json'') = Inr t
                \<and> json_loads env t = Inl e)"
  shows "fst (judge_answer env self original rewritten ctx answer_text) = Inr (judge_failure e)
         \<and> json_path [''query_evaluation'', ''score''] (judge_failure e) = Some (JInt 0)
         \<and> json_path [''answer_evaluation'', ''relevance_score''] (judge_failure e) = Some (JInt 0)
         \<and> json_path [''answer_evaluation'', ''correctness_score''] (judge_failure e) = Some (JInt 0)
         \<and> json_path [''answer_evaluation'', ''completeness_score''] (judge_failure e) = Some (JInt 0)
         \<and> json_path [''query_evaluation'', ''identified_issue''] (judge_failure e) = Some (JStr ''JUDGE_FAILURE'')
         \<and> json_path [''answer_evaluation'', ''identified_issue''] (judge_failure e) = Some (JStr ''JUDGE_FAILURE'')"
proof -
  have "fst (judge_answer env self original rewritten ctx answer_text) = Inr (judge_failure e)"
    using assms by (auto simp: judge_answer_def run_defs Let_def split: sum.splits prod.splits)
  moreover have "json_path [''query_evaluation'', ''score''] (judge_failure e) = Some (JInt 0)"
    by (simp add: judge_failure_def)
  moreover have "json_path [''answer_evaluation'', ''relevance_score''] (judge_failure e) = Some (JInt 0)"
    by (simp add: judge_failure_def)
  moreover have "json_path [''answer_evaluation'', ''correctness_score''] (judge_failure e) = Some (JInt 0)"
    by (simp add: judge_failure_def)
  moreover have "json_path [''answer_evaluation'', ''completeness_score''] (judge_failure e) = Some (JInt 0)"
    by (simp add: judge_failure_def)
  moreover have "json_path [''query_evaluation'', ''identified_issue''] (judge_failure e) = Some (JStr ''JUDGE_FAILURE'')"
    by (simp add: judge_failure_def)
  moreover have "json_path [''answer_evaluation'', ''identified_issue''] (judge_failure e) = Some (JStr ''JUDGE_FAILURE'')"
    by (simp add: judge_failure_def)
  ultimately show ?thesis by blast
qed

theorem judge_failure_sentinel_witness:
  "generate_content demo_env (judge_model demo_judge)
      (create_judge_prompt demo_judge ''what is alpha'' ''alpha first letter'' ''ctx'' ''Alpha is first.'')
      (Some ''application/json'') = Inl server_error
   \<and> fst (judge_answer demo_env demo_judge ''what is alpha'' ''alpha first letter'' ''ctx'' ''Alpha is first.'')
       = Inr (judge_failure server_error)
   \<and> json_path [''query_evaluation'', ''score''] (judge_failure server_error) = Some (JInt 0)"
proof -
  have h: "generate_content demo_env (judge_model demo_judge)
      (create_judge_prompt demo_judge ''what is alpha'' ''alpha first letter'' ''ctx'' ''Alpha is first.'')
      (Some ''application/json'') = Inl server_error"
    by (simp add: demo_env_def demo_judge_def)
  from judge_failure_sentinel [of demo_env demo_judge "''what is alpha''" "''alpha first letter''"
      "''ctx''" "''Alpha is first.''" server_error] h
  show ?thesis by blast
qed

end
